theory Spec2Isabelle
  imports Complex_Main "HOL-Library.Word" "HOL-Library.Sublist"
begin

section \<open>JavaScript strings and values\<close>

text \<open>
  A JavaScript string is a sequence of UTF-16 code units. String literals of the pages
  that are plain ASCII are written with \<open>ascii\<close>; the few others are given by their code
  units, exactly as they stand in the source files.
\<close>

type_synonym jsstring = "16 word list"

definition ascii :: "string \<Rightarrow> jsstring" where
  "ascii s = map (\<lambda>c. of_nat (of_char c)) s"

text \<open>
  \<open>String.prototype.trim\<close> strips WhiteSpace and LineTerminator code points from both
  ends. All of them lie in the basic plane, so the test is per code unit.
\<close>

definition whitespace_units :: "nat list" where
  "whitespace_units =
     [0x9, 0xA, 0xB, 0xC, 0xD, 0x20, 0xA0, 0x1680,
      0x2000, 0x2001, 0x2002, 0x2003, 0x2004, 0x2005, 0x2006, 0x2007, 0x2008, 0x2009, 0x200A,
      0x2028, 0x2029, 0x202F, 0x205F, 0x3000, 0xFEFF]"

definition is_whitespace :: "16 word \<Rightarrow> bool" where
  "is_whitespace c = (unat c \<in> set whitespace_units)"

definition trim :: "jsstring \<Rightarrow> jsstring" where
  "trim s = rev (dropWhile is_whitespace (rev (dropWhile is_whitespace s)))"

text \<open>The decimal rendering of a non-negative integer, as a template literal prints it.\<close>

fun nat_to_string :: "nat \<Rightarrow> jsstring" where
  "nat_to_string n =
     (if n < 10 then [of_nat (48 + n)]
      else nat_to_string (n div 10) @ [of_nat (48 + n mod 10)])"

declare nat_to_string.simps [simp del]

text \<open>
  The response body is untyped at run time (\<open>res.json()\<close> yields \<open>any\<close>), so the values
  that flow into a message are JavaScript values, not the interface types of the source.
  An object is the list of its own properties; a lookup takes the first binding of a key.
\<close>

datatype js =
    JUndefined
  | JNull
  | JBool bool
  | JNum rat
  | JStr jsstring
  | JArr "js list"
  | JObj "(jsstring \<times> js) list"

fun truthy :: "js \<Rightarrow> bool" where
  "truthy JUndefined = False"
| "truthy JNull = False"
| "truthy (JBool b) = b"
| "truthy (JNum r) = (r \<noteq> 0)"
| "truthy (JStr s) = (s \<noteq> [])"
| "truthy (JArr xs) = True"
| "truthy (JObj kvs) = True"

text \<open>\<open>a || b\<close>\<close>

definition js_or :: "js \<Rightarrow> js \<Rightarrow> js" where
  "js_or a b = (if truthy a then a else b)"

text \<open>
  \<open>v.k\<close> for a value \<open>v\<close> that is neither \<open>null\<close> nor \<open>undefined\<close>, and a property
  name \<open>k\<close> among those the pages read from the response (\<open>answer\<close>, \<open>sources\<close>,
  \<open>metadata\<close>, \<open>model\<close>): primitives and arrays have no such property.
\<close>

fun field :: "js \<Rightarrow> jsstring \<Rightarrow> js" where
  "field (JObj kvs) k = (case map_of kvs k of Some v \<Rightarrow> v | None \<Rightarrow> JUndefined)"
| "field v k = JUndefined"

definition nullish :: "js \<Rightarrow> bool" where
  "nullish v = (v = JUndefined \<or> v = JNull)"

text \<open>\<open>v?.k\<close>\<close>

definition optional_field :: "js \<Rightarrow> jsstring \<Rightarrow> js" where
  "optional_field v k = (if nullish v then JUndefined else field v k)"

text \<open>What a \<open>catch\<close> clause receives: an instance of \<open>Error\<close> with its message, or any other value.\<close>

datatype thrown = ErrorInstance jsstring | NonError

section \<open>The data model of the chat page\<close>

text \<open>
  The repository holds three versions of the page:
  the Posts page (\<open>src/app/Posts/page.tsx\<close>, with query expansion display), the
  production version with fixed sources and the enhanced production version (the first
  and the second file of \<open>src/unnamed/part_000\<close>).
\<close>

datatype version = PostsPage | ProductionFixed | ProductionEnhanced

datatype ModelId = Groq | Gemini

fun model_key :: "ModelId \<Rightarrow> jsstring" where
  "model_key Groq = ascii ''groq''"
| "model_key Gemini = ascii ''gemini''"

datatype Role = RoleUser | RoleAssistant

text \<open>
  \<open>interface ChatMessage\<close>. An optional field that the object literal does not mention is
  \<open>None\<close>. The timestamp is the clock reading of \<open>new Date()\<close> in milliseconds.
\<close>

record ChatMessage =
  role :: Role
  content :: js
  sources :: "js option"
  timestamp :: nat
  model :: "js option"
  metadata :: "js option"

text \<open>The five \<open>useState\<close> cells of \<open>ChatInterface\<close>.\<close>

record SessionState =
  question :: jsstring
  messages :: "ChatMessage list"
  loading :: bool
  error :: "jsstring option"
  selectedModel :: ModelId

definition initial_state :: SessionState where
  "initial_state =
     \<lparr>question = [], messages = [], loading = False, error = None, selectedModel = Groq\<rparr>"

text \<open>
  What the page takes from its environment: the base URL (\<open>NEXT_PUBLIC_API_URL\<close> or the
  hard-coded default) and the message of the \<open>TypeError\<close> that the engine raises when a
  property of \<open>null\<close> is read (its wording differs between engines).
\<close>

record Env =
  API_URL :: jsstring
  typeError_message :: jsstring

record Request =
  url :: jsstring
  http_method :: jsstring
  headers :: "(jsstring \<times> jsstring) list"
  body :: js

text \<open>The \<open>Response\<close> of \<open>fetch\<close>, with the outcome of \<open>res.json()\<close>.\<close>

datatype json_outcome = JsonRejects thrown | JsonResolves js

record Response =
  status :: nat
  statusText :: jsstring
  json :: json_outcome

definition ok :: "Response \<Rightarrow> bool" where
  "ok res = (200 \<le> status res \<and> status res \<le> 299)"

datatype fetch_outcome = FetchRejects thrown | FetchResolves Response

section \<open>The state setters\<close>

definition setQuestion :: "jsstring \<Rightarrow> SessionState \<Rightarrow> SessionState" where
  "setQuestion q s = s\<lparr>question := q\<rparr>"

definition setSelectedModel :: "ModelId \<Rightarrow> SessionState \<Rightarrow> SessionState" where
  "setSelectedModel m s = s\<lparr>selectedModel := m\<rparr>"

definition setError :: "jsstring option \<Rightarrow> SessionState \<Rightarrow> SessionState" where
  "setError e s = s\<lparr>error := e\<rparr>"

text \<open>The \<open>Tutup\<close> button of the error banner: \<open>onClick={() => setError(null)}\<close>.\<close>

definition dismissError :: "SessionState \<Rightarrow> SessionState" where
  "dismissError s = setError None s"

section \<open>handleSubmit\<close>

definition userMessage :: "jsstring \<Rightarrow> nat \<Rightarrow> ChatMessage" where
  "userMessage q now =
     \<lparr>role = RoleUser, content = JStr q, sources = None, timestamp = now,
      model = None, metadata = None\<rparr>"

text \<open>The argument of \<open>JSON.stringify\<close>; the enhanced version adds \<open>top_k: 5\<close>.\<close>

definition request_body :: "version \<Rightarrow> jsstring \<Rightarrow> ModelId \<Rightarrow> js" where
  "request_body v q sel =
     JObj ([(ascii ''question'', JStr q),
            (ascii ''use_rag'', JBool True),
            (ascii ''model'', JStr (model_key sel))]
           @ (if v = ProductionEnhanced then [(ascii ''top_k'', JNum 5)] else []))"

definition chat_request :: "version \<Rightarrow> Env \<Rightarrow> jsstring \<Rightarrow> ModelId \<Rightarrow> Request" where
  "chat_request v env q sel =
     \<lparr>url = API_URL env @ ascii ''/api/chat'',
      http_method = ascii ''POST'',
      headers = [(ascii ''Content-Type'', ascii ''application/json'')],
      body = request_body v q sel\<rparr>"

text \<open>
  The synchronous part of \<open>handleSubmit\<close>, up to the call of \<open>fetch\<close>: the new state and
  the request that was issued, if any.
\<close>

definition handleSubmit :: "version \<Rightarrow> Env \<Rightarrow> nat \<Rightarrow> SessionState \<Rightarrow> SessionState \<times> Request option" where
  "handleSubmit v env now s =
     (if trim (question s) = [] then (s, None)
      else (s\<lparr>messages := messages s @ [userMessage (question s) now],
              question := [],
              loading := True,
              error := None\<rparr>,
            Some (chat_request v env (question s) (selectedModel s))))"

text \<open>\<open>throw new Error(`API Error: ...`)\<close>\<close>

definition api_error_message :: "version \<Rightarrow> Response \<Rightarrow> jsstring" where
  "api_error_message v res =
     ascii ''API Error: '' @ nat_to_string (status res)
     @ (if v = ProductionEnhanced then ascii '' - '' @ statusText res else [])"

text \<open>
  The object literal \<open>assistantMessage\<close>. Its first property read, \<open>data.answer\<close>,
  throws a \<open>TypeError\<close> when \<open>data\<close> is \<open>null\<close>. \<open>sel\<close> is the \<open>selectedModel\<close> of the
  closure, that is, of the render in which the form was submitted. Only the Posts page
  copies \<open>data.metadata\<close>.
\<close>

definition assistantMessage :: "version \<Rightarrow> Env \<Rightarrow> nat \<Rightarrow> ModelId \<Rightarrow> js \<Rightarrow> thrown + ChatMessage" where
  "assistantMessage v env now sel data =
     (if nullish data then Inl (ErrorInstance (typeError_message env))
      else Inr \<lparr>role = RoleAssistant,
                content = field data (ascii ''answer''),
                sources = Some (js_or (field data (ascii ''sources'')) (JArr [])),
                timestamp = now,
                model = Some (js_or (optional_field (field data (ascii ''metadata'')) (ascii ''model''))
                                    (JStr (model_key sel))),
                metadata = (if v = PostsPage then Some (field data (ascii ''metadata'')) else None)\<rparr>)"

text \<open>The \<open>try\<close> block after the request was sent: the message to append, or what was thrown.\<close>

definition try_block :: "version \<Rightarrow> Env \<Rightarrow> nat \<Rightarrow> ModelId \<Rightarrow> fetch_outcome \<Rightarrow> thrown + ChatMessage" where
  "try_block v env now sel outcome =
     (case outcome of
        FetchRejects t \<Rightarrow> Inl t
      | FetchResolves res \<Rightarrow>
          if \<not> ok res then Inl (ErrorInstance (api_error_message v res))
          else (case json res of
                  JsonRejects t \<Rightarrow> Inl t
                | JsonResolves data \<Rightarrow> assistantMessage v env now sel data))"

text \<open>\<open>err instanceof Error ? err.message : "Terjadi kesalahan"\<close>\<close>

fun errorMessage :: "thrown \<Rightarrow> jsstring" where
  "errorMessage (ErrorInstance m) = m"
| "errorMessage NonError = ascii ''Terjadi kesalahan''"

definition error_prefix :: "version \<Rightarrow> jsstring" where
  "error_prefix v =
     (if v = ProductionEnhanced
      then [0xE2, 0x161, 0xA0, 0xEF, 0xB8] @ ascii '' Maaf, terjadi kesalahan: ''
      else ascii ''Maaf, terjadi kesalahan: '')"

definition error_suffix :: "version \<Rightarrow> jsstring" where
  "error_suffix v =
     (if v = ProductionEnhanced
      then [0xA, 0xA] @ ascii ''Silakan coba lagi atau hubungi administrator.''
      else [])"

definition errorChatMessage :: "version \<Rightarrow> jsstring \<Rightarrow> nat \<Rightarrow> ChatMessage" where
  "errorChatMessage v msg now =
     \<lparr>role = RoleAssistant,
      content = JStr (error_prefix v @ msg @ error_suffix v),
      sources = None, timestamp = now, model = None, metadata = None\<rparr>"

text \<open>
  The rest of \<open>handleSubmit\<close>, run when \<open>fetch\<close> settles: the \<open>try\<close> block, the \<open>catch\<close>
  clause and \<open>finally\<close>. The functional updates of \<open>setMessages\<close> apply to the state at
  that moment.
\<close>

definition handleSubmit_settle :: "version \<Rightarrow> Env \<Rightarrow> nat \<Rightarrow> ModelId \<Rightarrow> fetch_outcome \<Rightarrow> SessionState \<Rightarrow> SessionState" where
  "handleSubmit_settle v env now sel outcome s =
     (case try_block v env now sel outcome of
        Inr msg \<Rightarrow> s\<lparr>messages := messages s @ [msg], loading := False\<rparr>
      | Inl err \<Rightarrow>
          s\<lparr>error := Some (errorMessage err),
            messages := messages s @ [errorChatMessage v (errorMessage err) now],
            loading := False\<rparr>)"

section \<open>What the page renders\<close>

text \<open>The model badge of a message: \<open>{msg.model && (...)}\<close>.\<close>

definition model_badge_shown :: "ChatMessage \<Rightarrow> bool" where
  "model_badge_shown m = (case model m of None \<Rightarrow> False | Some v \<Rightarrow> truthy v)"

text \<open>\<open>v.length\<close> for a truthy value \<open>v\<close>.\<close>

fun js_length :: "js \<Rightarrow> js" where
  "js_length (JArr xs) = JNum (of_nat (length xs))"
| "js_length (JStr s) = JNum (of_nat (length s))"
| "js_length (JObj kvs) = field (JObj kvs) (ascii ''length'')"
| "js_length v = JUndefined"

text \<open>
  \<open>v > 0\<close>. A string, an array or an object on the left is first converted to a number
  through its string form; that conversion is not modelled, and the result is \<open>None\<close> there.
\<close>

fun js_gt_zero :: "js \<Rightarrow> bool option" where
  "js_gt_zero (JNum r) = Some (0 < r)"
| "js_gt_zero (JBool b) = Some b"
| "js_gt_zero JNull = Some False"
| "js_gt_zero JUndefined = Some False"
| "js_gt_zero v = None"

text \<open>The sources section of a message: \<open>{msg.sources && msg.sources.length > 0 && (...)}\<close>.\<close>

definition sources_section_shown :: "ChatMessage \<Rightarrow> bool option" where
  "sources_section_shown m =
     (case sources m of
        None \<Rightarrow> Some False
      | Some v \<Rightarrow> if truthy v then js_gt_zero (js_length v) else Some False)"

text \<open>The error banner with its \<open>Tutup\<close> button: \<open>{error && (...)}\<close>.\<close>

definition error_banner_shown :: "SessionState \<Rightarrow> bool" where
  "error_banner_shown s = (case error s of None \<Rightarrow> False | Some e \<Rightarrow> e \<noteq> [])"

section \<open>Quick questions\<close>

definition quickQuestions :: "version \<Rightarrow> jsstring list" where
  "quickQuestions v =
     (case v of
        PostsPage \<Rightarrow>
          [ascii ''Data inflasi 2 tahun terakhir'',
           ascii ''Tingkat kemiskinan Sumut tahun ini'',
           ascii ''Pertumbuhan ekonomi 3 tahun belakangan'',
           ascii ''Pengangguran terbaru'']
      | ProductionFixed \<Rightarrow>
          [ascii ''Data inflasi Sumatera Utara terbaru'',
           ascii ''Tingkat kemiskinan di Sumut'',
           ascii ''Pertumbuhan ekonomi Sumatera Utara'',
           ascii ''Data pengangguran Sumut'']
      | ProductionEnhanced \<Rightarrow>
          [[0x11F, 0x178, 0x201C, 0x160] @ ascii '' Inflasi terendah di Jawa Timur bulan September 2025'',
           [0x11F, 0x178, 0x201C, 0x2C6] @ ascii '' Pertumbuhan ekonomi Sumatera Utara terbaru'',
           [0x11F, 0x178, 0x2019, 0xB0] @ ascii '' Data kemiskinan Sumut tahun 2025'',
           [0x11F, 0x178, 0x2018, 0xA8, 0xE2, 0x20AC, 0x11F, 0x178, 0x2019, 0xBC]
             @ ascii '' Tingkat pengangguran terbuka terkini'',
           [0x11F, 0x178, 0x152, 0xBE] @ ascii '' Produksi padi di Jawa Timur'',
           [0x11F, 0x178, 0x201C, 0x2030] @ ascii '' Deflasi yang terjadi di Jawa Timur''])"

text \<open>
  The quick-question button of the Posts page: \<open>onClick={() => setQuestion(q)}\<close>.
  It fills the input and does nothing else.
\<close>

definition quickQuestion_onClick :: "jsstring \<Rightarrow> SessionState \<Rightarrow> SessionState" where
  "quickQuestion_onClick q s = setQuestion q s"

section \<open>The enhanced production page as an event system\<close>

text \<open>
  The enhanced production version is the one whose whole component, controls included,
  is in the source. Besides the five state cells the running page has the requests that
  are in flight, each a suspended \<open>handleSubmit\<close> holding the \<open>selectedModel\<close> of its
  closure, and the timeouts that \<open>handleQuickQuestion\<close> has set and that have not fired.
\<close>

record Page =
  session :: SessionState
  inflight :: "ModelId list"
  timers :: nat

definition initial_page :: Page where
  "initial_page = \<lparr>session = initial_state, inflight = [], timers = 0\<rparr>"

text \<open>\<open>handleQuickQuestion\<close>: fill the input, and submit the form 100 ms later.\<close>

definition handleQuickQuestion :: "jsstring \<Rightarrow> Page \<Rightarrow> Page" where
  "handleQuickQuestion q p = p\<lparr>session := setQuestion q (session p), timers := Suc (timers p)\<rparr>"

text \<open>A submit event of the form runs \<open>handleSubmit\<close>; a request it issues is then in flight.\<close>

definition onSubmit :: "Env \<Rightarrow> nat \<Rightarrow> Page \<Rightarrow> Page" where
  "onSubmit env now p =
     (case handleSubmit ProductionEnhanced env now (session p) of
        (s', None) \<Rightarrow> p\<lparr>session := s'\<rparr>
      | (s', Some r) \<Rightarrow> p\<lparr>session := s', inflight := inflight p @ [selectedModel (session p)]\<rparr>)"

text \<open>
  \<open>form.requestSubmit()\<close>, and likewise the Enter key: the text input is \<open>required\<close>, so
  with an enabled, empty input the form is invalid and no submit event is sent. A disabled
  input is not validated.
\<close>

definition requestSubmit :: "Env \<Rightarrow> nat \<Rightarrow> Page \<Rightarrow> Page" where
  "requestSubmit env now p =
     (if \<not> loading (session p) \<and> question (session p) = [] then p else onSubmit env now p)"

text \<open>
  The events of the page. Every control except the \<open>Tutup\<close> button carries
  \<open>disabled={loading}\<close> (the submit button \<open>disabled={loading || !question.trim()}\<close>),
  and a disabled control sends no event. The timer callback calls \<open>requestSubmit\<close>
  whatever the state of the controls.
\<close>

datatype event =
    InputChange jsstring
  | SelectModel ModelId
  | QuickQuestion nat
  | SubmitForm nat
  | TimerFires nat
  | FetchSettles nat fetch_outcome
  | DismissError

fun step :: "Env \<Rightarrow> event \<Rightarrow> Page \<Rightarrow> Page" where
  "step env (InputChange t) p =
     (if loading (session p) then p else p\<lparr>session := setQuestion t (session p)\<rparr>)"
| "step env (SelectModel m) p =
     (if loading (session p) then p else p\<lparr>session := setSelectedModel m (session p)\<rparr>)"
| "step env (QuickQuestion i) p =
     (if loading (session p) \<or> length (quickQuestions ProductionEnhanced) \<le> i then p
      else handleQuickQuestion (quickQuestions ProductionEnhanced ! i) p)"
| "step env (SubmitForm now) p =
     (if loading (session p) then p else requestSubmit env now p)"
| "step env (TimerFires now) p =
     (if timers p = 0 then p else requestSubmit env now (p\<lparr>timers := timers p - 1\<rparr>))"
| "step env (FetchSettles now outcome) p =
     (case inflight p of
        [] \<Rightarrow> p
      | sel # rest \<Rightarrow>
          p\<lparr>session := handleSubmit_settle ProductionEnhanced env now sel outcome (session p),
            inflight := rest\<rparr>)"
| "step env DismissError p =
     (if error_banner_shown (session p) then p\<lparr>session := dismissError (session p)\<rparr> else p)"

definition run :: "Env \<Rightarrow> event list \<Rightarrow> Page \<Rightarrow> Page" where
  "run env evs p = foldl (\<lambda>p e. step env e p) p evs"

text \<open>A concrete environment: the hard-coded default URL, and the wording of V8.\<close>

definition default_env :: Env where
  "default_env =
     \<lparr>API_URL = ascii ''https://jernihh-magangchatbot-ai.hf.space'',
      typeError_message = ascii ''Cannot read properties of null (reading 'answer')''\<rparr>"

section \<open>An invariant of the event system, and sample inputs\<close>

text \<open>
  While a request is in flight the input is empty, exactly one suspended \<open>handleSubmit\<close>
  exists, and the model it captured is the selected one.
\<close>

definition page_inv :: "Page \<Rightarrow> bool" where
  "page_inv p \<longleftrightarrow>
     (loading (session p) \<longrightarrow> question (session p) = [])
   \<and> (loading (session p) \<longleftrightarrow> inflight p \<noteq> [])
   \<and> length (inflight p) \<le> 1
   \<and> (\<forall>sel \<in> set (inflight p). sel = selectedModel (session p))"

text \<open>Concrete states and responses, used to run the definitions.\<close>

definition asking_state :: SessionState where
  "asking_state = initial_state\<lparr>question := ascii ''Data inflasi Sumut''\<rparr>"


definition ok_response :: "js \<Rightarrow> Response" where
  "ok_response data = \<lparr>status = 200, statusText = ascii ''OK'', json = JsonResolves data\<rparr>"

definition server_error_response :: Response where
  "server_error_response =
     \<lparr>status = 500, statusText = ascii ''Internal Server Error'', json = JsonResolves JNull\<rparr>"

definition empty_model_body :: js where
  "empty_model_body =
     JObj [(ascii ''answer'', JStr (ascii ''X'')),
           (ascii ''metadata'', JObj [(ascii ''model'', JStr [])])]"

definition plain_body :: js where
  "plain_body = JObj [(ascii ''answer'', JStr (ascii ''X'')), (ascii ''sources'', JArr [])]"

definition empty_body :: js where
  "empty_body = JObj []"

definition not_found_response :: Response where
  "not_found_response =
     \<lparr>status = 404, statusText = ascii ''Not Found'', json = JsonResolves JNull\<rparr>"

definition answerless_body :: js where
  "answerless_body =
     JObj [(ascii ''sources'', JArr [JStr (ascii ''doc'')]),
           (ascii ''metadata'', JObj [(ascii ''model'', JStr (ascii ''gemini''))])]"

definition poverty_question :: jsstring where
  "poverty_question = ascii ''Tingkat kemiskinan Sumut tahun ini''"

section \<open>Auxiliary facts\<close>

lemma dropWhile_all_iff: "(\<forall>x \<in> set (dropWhile P xs). P x) \<longleftrightarrow> dropWhile P xs = []"
proof
  assume all: "\<forall>x \<in> set (dropWhile P xs). P x"
  show "dropWhile P xs = []"
  proof (rule ccontr)
    assume ne: "dropWhile P xs \<noteq> []"
    then have "\<not> P (hd (dropWhile P xs))" by (rule hd_dropWhile)
    moreover from ne have "hd (dropWhile P xs) \<in> set (dropWhile P xs)" by simp
    ultimately show False using all by blast
  qed
next
  assume e: "dropWhile P xs = []"
  show "\<forall>x \<in> set (dropWhile P xs). P x" unfolding e by simp
qed

lemma trim_eq_Nil_iff: "trim s = [] \<longleftrightarrow> (\<forall>c \<in> set s. is_whitespace c)"
  by (simp add: trim_def dropWhile_eq_Nil_conv dropWhile_all_iff)

lemma trim_Cons_not_Nil: "\<not> is_whitespace c \<Longrightarrow> trim (c # s) \<noteq> []"
  by (simp add: trim_eq_Nil_iff)

lemma not_whitespace_ascii_letter [simp]: "\<not> is_whitespace 0x44" "\<not> is_whitespace 0x54" "\<not> is_whitespace 0x78"
  by (simp_all add: is_whitespace_def whitespace_units_def)

lemma trim_Nil [simp]: "trim [] = []"
  by (simp add: trim_def)

lemma page_inv_initial: "page_inv initial_page"
  by (simp add: page_inv_def initial_page_def initial_state_def)

lemma onSubmit_inv: "page_inv p \<Longrightarrow> page_inv (onSubmit env now p)"
  by (auto simp: page_inv_def onSubmit_def handleSubmit_def)

lemma requestSubmit_inv: "page_inv p \<Longrightarrow> page_inv (requestSubmit env now p)"
  by (simp add: requestSubmit_def onSubmit_inv)

lemma settle_loading [simp]: "loading (handleSubmit_settle v env now sel outcome s) = False"
  by (simp add: handleSubmit_settle_def split: sum.splits)

lemma settle_question [simp]: "question (handleSubmit_settle v env now sel outcome s) = question s"
  by (simp add: handleSubmit_settle_def split: sum.splits)

lemma settle_selectedModel [simp]:
  "selectedModel (handleSubmit_settle v env now sel outcome s) = selectedModel s"
  by (simp add: handleSubmit_settle_def split: sum.splits)

lemma step_inv: "page_inv p \<Longrightarrow> page_inv (step env e p)"
proof (cases e)
  case (InputChange t)
  then show "page_inv p \<Longrightarrow> ?thesis" by (auto simp: page_inv_def setQuestion_def)
next
  case (SelectModel m)
  then show "page_inv p \<Longrightarrow> ?thesis" by (auto simp: page_inv_def setSelectedModel_def)
next
  case (QuickQuestion i)
  then show "page_inv p \<Longrightarrow> ?thesis"
    by (auto simp: page_inv_def handleQuickQuestion_def setQuestion_def)
next
  case (SubmitForm now)
  then show "page_inv p \<Longrightarrow> ?thesis" by (simp add: requestSubmit_inv)
next
  case (TimerFires now)
  assume inv: "page_inv p"
  then have "page_inv (p\<lparr>timers := timers p - 1\<rparr>)" by (simp add: page_inv_def)
  then show ?thesis using inv TimerFires by (simp add: requestSubmit_inv)
next
  case (FetchSettles now outcome)
  then show "page_inv p \<Longrightarrow> ?thesis"
    by (cases "inflight p") (auto simp: page_inv_def)
next
  case DismissError
  then show "page_inv p \<Longrightarrow> ?thesis"
    by (auto simp: page_inv_def dismissError_def setError_def)
qed

lemma run_inv: "page_inv p \<Longrightarrow> page_inv (run env evs p)"
  unfolding run_def by (induction evs arbitrary: p) (simp_all add: step_inv)

lemma settle_prefix: "prefix (messages s) (messages (handleSubmit_settle v env now sel outcome s))"
  by (simp add: handleSubmit_settle_def split: sum.splits)

lemma submit_prefix: "prefix (messages s) (messages (fst (handleSubmit v env now s)))"
  by (simp add: handleSubmit_def)

lemma onSubmit_prefix: "prefix (messages (session p)) (messages (session (onSubmit env now p)))"
  by (simp add: onSubmit_def handleSubmit_def)

lemma requestSubmit_prefix:
  "prefix (messages (session p)) (messages (session (requestSubmit env now p)))"
  by (simp add: requestSubmit_def onSubmit_prefix)

lemma step_prefix: "prefix (messages (session p)) (messages (session (step env e p)))"
proof (cases e)
  case (TimerFires now)
  have "prefix (messages (session (p\<lparr>timers := timers p - 1\<rparr>)))
          (messages (session (requestSubmit env now (p\<lparr>timers := timers p - 1\<rparr>))))"
    by (rule requestSubmit_prefix)
  then show ?thesis using TimerFires by simp
next
  case (FetchSettles now outcome)
  then show ?thesis by (cases "inflight p") (simp_all add: settle_prefix)
qed (simp_all add: setQuestion_def setSelectedModel_def handleQuickQuestion_def
       requestSubmit_prefix dismissError_def setError_def)

lemma run_prefix: "prefix (messages (session p)) (messages (session (run env evs p)))"
  unfolding run_def
proof (induction evs arbitrary: p)
  case Nil
  show ?case by simp
next
  case (Cons e evs)
  have "prefix (messages (session p)) (messages (session (step env e p)))"
    by (rule step_prefix)
  also have "prefix \<dots> (messages (session (foldl (\<lambda>p e. step env e p) (step env e p) evs)))"
    by (rule Cons.IH)
  finally show ?case by simp
qed

lemma trim_asking [simp]: "trim (ascii ''Data inflasi Sumut'') \<noteq> []"
  by (simp add: ascii_def trim_Cons_not_Nil)

lemma trim_x [simp]: "trim (ascii ''x'') \<noteq> []"
  by (simp add: ascii_def trim_Cons_not_Nil)

lemma ascii_unit_inj: "(of_nat (of_char x) :: 16 word) = of_nat (of_char y) \<Longrightarrow> x = y"
proof -
  assume eq: "(of_nat (of_char x) :: 16 word) = of_nat (of_char y)"
  have bound: "(of_char c :: nat) < 2 ^ LENGTH(16)" for c :: char
  proof -
    have "(of_char c :: nat) < 256" by (rule nat_of_char_less_256)
    also have "(256 :: nat) < 2 ^ LENGTH(16)" by simp
    finally show ?thesis .
  qed
  have ux: "unat (of_nat (of_char x) :: 16 word) = of_char x"
    by (rule of_nat_inverse [OF refl bound])
  have uy: "unat (of_nat (of_char y) :: 16 word) = of_char y"
    by (rule of_nat_inverse [OF refl bound])
  from eq have "unat (of_nat (of_char x) :: 16 word) = unat (of_nat (of_char y) :: 16 word)"
    by (rule arg_cong)
  then have "(of_char x :: nat) = of_char y" by (simp only: ux uy)
  then show "x = y" by (simp only: of_char_eq_iff)
qed

lemma ascii_eq_iff [simp]: "ascii a = ascii b \<longleftrightarrow> a = b"
proof -
  have "inj (\<lambda>c::char. (of_nat (of_char c) :: 16 word))"
    by (rule injI) (rule ascii_unit_inj)
  then show ?thesis by (simp add: ascii_def inj_map_eq_map)
qed

lemma ascii_Nil [simp]: "ascii [] = []" "ascii s = [] \<longleftrightarrow> s = []"
  by (simp_all add: ascii_def)

lemma model_key_truthy [simp]: "model_key sel \<noteq> []"
  by (cases sel) simp_all

lemma handleSubmit_SomeD:
  assumes "handleSubmit v env t0 s0 = (s1, Some r)"
  shows "trim (question s0) \<noteq> []"
    and "s1 = s0\<lparr>messages := messages s0 @ [userMessage (question s0) t0],
                  question := [], loading := True, error := None\<rparr>"
    and "r = chat_request v env (question s0) (selectedModel s0)"
  using assms by (auto simp: handleSubmit_def split: if_splits)

lemma asking_submit:
  "handleSubmit v default_env 0 asking_state
     = (fst (handleSubmit v default_env 0 asking_state),
        Some (chat_request v default_env (ascii ''Data inflasi Sumut'') Groq))"
  by (simp add: handleSubmit_def asking_state_def initial_state_def)

lemma asking_submit_state:
  "fst (handleSubmit v default_env 0 asking_state)
     = \<lparr>question = [], messages = [userMessage (ascii ''Data inflasi Sumut'') 0],
        loading = True, error = None, selectedModel = Groq\<rparr>"
  by (simp add: handleSubmit_def asking_state_def initial_state_def)

lemma preset_not_blank:
  "q \<in> set (quickQuestions ProductionEnhanced) \<Longrightarrow> trim q \<noteq> []"
proof -
  have nw: "\<not> is_whitespace 0x11F"
    by (simp add: is_whitespace_def whitespace_units_def)
  assume "q \<in> set (quickQuestions ProductionEnhanced)"
  then obtain rest where "q = 0x11F # rest"
    by (auto simp: quickQuestions_def)
  then show ?thesis using nw by (simp add: trim_Cons_not_Nil)
qed

lemma malformed_body_is_error:
  assumes "ok res"
    and "json res = JsonRejects t \<and> msg = errorMessage t
       \<or> json res = JsonResolves JNull \<and> msg = typeError_message env"
  shows "handleSubmit_settle v env t1 sel (FetchResolves res) s
       = s\<lparr>error := Some msg, messages := messages s @ [errorChatMessage v msg t1], loading := False\<rparr>"
  using assms by (auto simp: handleSubmit_settle_def try_block_def assistantMessage_def nullish_def)

lemma trim_poverty [simp]: "trim poverty_question \<noteq> []"
  by (simp add: poverty_question_def ascii_def trim_Cons_not_Nil)

lemma digit_unit: "d < 10 \<Longrightarrow> unat (of_nat (48 + d) :: 16 word) - 48 = d"
proof -
  assume "d < 10"
  then have "48 + d < 2 ^ LENGTH(16)" by simp
  then have "unat (of_nat (48 + d) :: 16 word) = 48 + d" by (rule of_nat_inverse [OF refl])
  then show ?thesis by (simp only: add_diff_cancel_left')
qed

lemma nat_to_string_value:
  "foldl (\<lambda>a c. 10 * a + (unat c - 48)) 0 (nat_to_string n) = n"
proof (induction n rule: nat_to_string.induct)
  case (1 n)
  show ?case
  proof (cases "n < 10")
    case True
    then have "nat_to_string n = [of_nat (48 + n)]"
      by (simp only: nat_to_string.simps [of n] if_True)
    then show ?thesis
      by (simp only: foldl.simps digit_unit [OF True] mult_zero_right add_0)
  next
    case False
    have m: "n mod 10 < 10" by simp
    from False have ih: "foldl (\<lambda>a c. 10 * a + (unat c - 48)) 0 (nat_to_string (n div 10)) = n div 10"
      by (rule "1.IH")
    from False have "nat_to_string n = nat_to_string (n div 10) @ [of_nat (48 + n mod 10)]"
      by (simp only: nat_to_string.simps [of n] if_False)
    then have "foldl (\<lambda>a c. 10 * a + (unat c - 48)) 0 (nat_to_string n)
        = 10 * (n div 10) + n mod 10"
      by (simp only: foldl_append foldl.simps ih digit_unit [OF m])
    then show ?thesis by simp
  qed
qed

lemma sources_or_empty:
  "js_or (field (JObj kvs) (ascii ''sources'')) (JArr [])
     = (case map_of kvs (ascii ''sources'') of
          None \<Rightarrow> JArr [] | Some src \<Rightarrow> if truthy src then src else JArr [])"
  by (simp add: js_or_def split: option.splits)

lemma model_or_selected:
  "js_or (optional_field (field (JObj kvs) (ascii ''metadata'')) (ascii ''model'')) d
     = (case map_of kvs (ascii ''metadata'') of
          Some (JObj mkvs) \<Rightarrow>
            (case map_of mkvs (ascii ''model'') of
               None \<Rightarrow> d
             | Some m \<Rightarrow> if truthy m then m else d)
        | _ \<Rightarrow> d)"
  by (simp add: js_or_def optional_field_def nullish_def split: option.splits js.splits)

lemma blank_submit: "trim (question s) = [] \<Longrightarrow> handleSubmit v env now s = (s, None)"
  by (simp add: handleSubmit_def)

lemma blank_requestSubmit:
  "trim (question (session p)) = [] \<Longrightarrow> requestSubmit env now p = p"
  by (simp add: requestSubmit_def onSubmit_def blank_submit)

section \<open>Properties\<close>

text \<open>
  C1. Submit is a no-op when the pending input is empty or whitespace-only, or when a
  request is in flight. In every state that the enhanced production page reaches from its
  initial state, if the input is blank or loading is true, then \<open>handleSubmit\<close> returns
  the state as it is and issues no request, a submit of the form leaves the page as it
  is, and the timer of a quick question changes neither the session state nor the
  requests in flight; at most one request is in flight. The controls are disabled while
  loading, and \<open>handleSubmit\<close> clears the input together with setting loading, so that
  loading implies an empty input. On a blank input \<open>handleSubmit\<close> is a no-op in every
  version and every state.
\<close>

theorem submit_noop_when_blank_or_loading:
  assumes "trim (question (session (run env evs initial_page))) = []
         \<or> loading (session (run env evs initial_page))"
  shows "handleSubmit ProductionEnhanced env now (session (run env evs initial_page))
           = (session (run env evs initial_page), None)
       \<and> step env (SubmitForm now) (run env evs initial_page) = run env evs initial_page
       \<and> session (step env (TimerFires now) (run env evs initial_page))
           = session (run env evs initial_page)
       \<and> inflight (step env (TimerFires now) (run env evs initial_page))
           = inflight (run env evs initial_page)
       \<and> length (inflight (run env evs initial_page)) \<le> 1
       \<and> (trim (question s) = [] \<longrightarrow> handleSubmit v env now s = (s, None))"
proof -
  let ?p = "run env evs initial_page"
  have inv: "page_inv ?p"
    by (rule run_inv) (rule page_inv_initial)
  have blank: "trim (question (session ?p)) = []"
    using assms inv by (auto simp: page_inv_def)
  have h: "handleSubmit ProductionEnhanced env now (session ?p) = (session ?p, None)"
    using blank by (rule blank_submit)
  have f: "step env (SubmitForm now) ?p = ?p"
    using blank by (simp add: blank_requestSubmit)
  have "trim (question (session (?p\<lparr>timers := timers ?p - 1\<rparr>))) = []"
    using blank by simp
  then have "requestSubmit env now (?p\<lparr>timers := timers ?p - 1\<rparr>) = ?p\<lparr>timers := timers ?p - 1\<rparr>"
    by (rule blank_requestSubmit)
  then have t: "session (step env (TimerFires now) ?p) = session ?p"
      "inflight (step env (TimerFires now) ?p) = inflight ?p"
    by simp_all
  have one: "length (inflight ?p) \<le> 1"
    using inv by (simp add: page_inv_def)
  show ?thesis
    using h f t one by (simp add: blank_submit)
qed

theorem submit_noop_when_blank_or_loading_witness:
  "loading (session (run default_env [InputChange (ascii ''x''), SubmitForm 0] initial_page))
   \<and> messages (session (run default_env [InputChange (ascii ''x''), SubmitForm 0] initial_page))
       = [userMessage (ascii ''x'') 0]
   \<and> handleSubmit ProductionEnhanced default_env 1
        (session (run default_env [InputChange (ascii ''x''), SubmitForm 0] initial_page))
       = (session (run default_env [InputChange (ascii ''x''), SubmitForm 0] initial_page), None)
   \<and> step default_env (SubmitForm 1)
        (run default_env [InputChange (ascii ''x''), SubmitForm 0] initial_page)
       = run default_env [InputChange (ascii ''x''), SubmitForm 0] initial_page
   \<and> trim (question (session (run default_env [InputChange (ascii ''   '')] initial_page))) = []
   \<and> step default_env (SubmitForm 1) (run default_env [InputChange (ascii ''   '')] initial_page)
       = run default_env [InputChange (ascii ''   '')] initial_page
   \<and> handleSubmit PostsPage default_env 1 initial_state = (initial_state, None)"
proof -
  have s: "session (run default_env [InputChange (ascii ''x''), SubmitForm 0] initial_page)
      = \<lparr>question = [], messages = [userMessage (ascii ''x'') 0], loading = True, error = None,
         selectedModel = Groq\<rparr>"
    by (simp add: run_def initial_page_def initial_state_def setQuestion_def requestSubmit_def
        onSubmit_def handleSubmit_def)
  have l: "loading (session (run default_env [InputChange (ascii ''x''), SubmitForm 0] initial_page))"
    and m: "messages (session (run default_env [InputChange (ascii ''x''), SubmitForm 0] initial_page))
       = [userMessage (ascii ''x'') 0]"
    by (simp_all only: s SessionState.simps)
  have b: "trim (question (session (run default_env [InputChange (ascii ''   '')] initial_page))) = []"
    by (simp add: run_def initial_page_def initial_state_def setQuestion_def ascii_def
        trim_eq_Nil_iff is_whitespace_def whitespace_units_def)
  note busy = submit_noop_when_blank_or_loading
      [of default_env "[InputChange (ascii ''x''), SubmitForm 0]" 1 initial_state PostsPage,
       OF disjI2, OF l]
  note blank = submit_noop_when_blank_or_loading
      [of default_env "[InputChange (ascii ''   '')]" 1 initial_state PostsPage, OF disjI1, OF b]
  from busy have b1: "handleSubmit ProductionEnhanced default_env 1
        (session (run default_env [InputChange (ascii ''x''), SubmitForm 0] initial_page))
       = (session (run default_env [InputChange (ascii ''x''), SubmitForm 0] initial_page), None)"
    by blast
  from busy have b2: "step default_env (SubmitForm 1)
        (run default_env [InputChange (ascii ''x''), SubmitForm 0] initial_page)
       = run default_env [InputChange (ascii ''x''), SubmitForm 0] initial_page"
    by blast
  from blank have b3: "step default_env (SubmitForm 1) (run default_env [InputChange (ascii ''   '')] initial_page)
       = run default_env [InputChange (ascii ''   '')] initial_page"
    by blast
  have "trim (question initial_state) = []"
    by (simp add: initial_state_def)
  with blank have b4: "handleSubmit PostsPage default_env 1 initial_state = (initial_state, None)"
    by blast
  show ?thesis
    using l m b b1 b2 b3 b4 by blast
qed

text \<open>
  C2, as stated, fails where \<open>metadata.model\<close> is present but falsy: \<open>||\<close> falls back
  on every falsy value, not only on an absent one. For the response
  \<open>{answer: "X", metadata: {model: ""}}\<close> the message carries the selected model
  \<open>"groq"\<close>, not the empty string of the response.
\<close>

theorem empty_model_falls_back_counterexample:
  "ok (ok_response empty_model_body)
   \<and> field (field empty_model_body (ascii ''metadata'')) (ascii ''model'') = JStr []
   \<and> model (last (messages (handleSubmit_settle PostsPage default_env 1 Groq
         (FetchResolves (ok_response empty_model_body))
         (fst (handleSubmit PostsPage default_env 0 asking_state)))))
       = Some (JStr (ascii ''groq''))
   \<and> model (last (messages (handleSubmit_settle PostsPage default_env 1 Groq
         (FetchResolves (ok_response empty_model_body))
         (fst (handleSubmit PostsPage default_env 0 asking_state)))))
       \<noteq> Some (JStr [])"
  by (simp add: handleSubmit_settle_def try_block_def assistantMessage_def ok_def ok_response_def
      empty_model_body_def nullish_def optional_field_def js_or_def)

text \<open>
  C2, amended. After a submit that issued a request, a response with a 2xx status whose
  body parses to an object with an \<open>answer\<close> field appends exactly one assistant message:
  its content is \<open>answer\<close>; its sources are the \<open>sources\<close> of the response, or the empty
  list when that field is absent or falsy; its model is \<open>metadata.model\<close> when that is
  present and truthy, and the selected model otherwise. Loading returns to false and
  error stays null.
\<close>

theorem success_appends_assistant_message:
  assumes "handleSubmit v env t0 s0 = (s1, Some r)"
    and "ok res"
    and "json res = JsonResolves (JObj kvs)"
    and "map_of kvs (ascii ''answer'') = Some a"
  shows "messages (handleSubmit_settle v env t1 (selectedModel s1) (FetchResolves res) s1)
           = messages s1 @ [last (messages (handleSubmit_settle v env t1 (selectedModel s1) (FetchResolves res) s1))]
       \<and> role (last (messages (handleSubmit_settle v env t1 (selectedModel s1) (FetchResolves res) s1)))
           = RoleAssistant
       \<and> content (last (messages (handleSubmit_settle v env t1 (selectedModel s1) (FetchResolves res) s1)))
           = a
       \<and> sources (last (messages (handleSubmit_settle v env t1 (selectedModel s1) (FetchResolves res) s1)))
           = Some (case map_of kvs (ascii ''sources'') of
                     None \<Rightarrow> JArr []
                   | Some src \<Rightarrow> if truthy src then src else JArr [])
       \<and> model (last (messages (handleSubmit_settle v env t1 (selectedModel s1) (FetchResolves res) s1)))
           = Some (case map_of kvs (ascii ''metadata'') of
                     Some (JObj mkvs) \<Rightarrow>
                       (case map_of mkvs (ascii ''model'') of
                          None \<Rightarrow> JStr (model_key (selectedModel s1))
                        | Some m \<Rightarrow> if truthy m then m else JStr (model_key (selectedModel s1)))
                   | _ \<Rightarrow> JStr (model_key (selectedModel s1)))
       \<and> loading (handleSubmit_settle v env t1 (selectedModel s1) (FetchResolves res) s1) = False
       \<and> error (handleSubmit_settle v env t1 (selectedModel s1) (FetchResolves res) s1) = None
       \<and> selectedModel s1 = selectedModel s0"
proof -
  let ?s2 = "handleSubmit_settle v env t1 (selectedModel s1) (FetchResolves res) s1"
  let ?sel = "JStr (model_key (selectedModel s1))"
  let ?m = "\<lparr>role = RoleAssistant, content = a,
            sources = Some (js_or (field (JObj kvs) (ascii ''sources'')) (JArr [])),
            timestamp = t1,
            model = Some (js_or (optional_field (field (JObj kvs) (ascii ''metadata'')) (ascii ''model'')) ?sel),
            metadata = (if v = PostsPage then Some (field (JObj kvs) (ascii ''metadata'')) else None)\<rparr>"
  have s1: "error s1 = None" "selectedModel s1 = selectedModel s0"
    using handleSubmit_SomeD(2) [OF assms(1)] by simp_all
  have tb: "try_block v env t1 (selectedModel s1) (FetchResolves res) = Inr ?m"
    using assms(2-4) by (simp add: try_block_def assistantMessage_def nullish_def)
  have s2: "?s2 = s1\<lparr>messages := messages s1 @ [?m], loading := False\<rparr>"
    by (simp add: handleSubmit_settle_def tb)
  have src: "js_or (field (JObj kvs) (ascii ''sources'')) (JArr [])
      = (case map_of kvs (ascii ''sources'') of
           None \<Rightarrow> JArr [] | Some src \<Rightarrow> if truthy src then src else JArr [])"
    by (simp add: js_or_def split: option.splits)
  have mdl: "js_or (optional_field (field (JObj kvs) (ascii ''metadata'')) (ascii ''model'')) ?sel
      = (case map_of kvs (ascii ''metadata'') of
           Some (JObj mkvs) \<Rightarrow>
             (case map_of mkvs (ascii ''model'') of
                None \<Rightarrow> ?sel
              | Some m \<Rightarrow> if truthy m then m else ?sel)
         | _ \<Rightarrow> ?sel)"
    by (simp add: js_or_def optional_field_def nullish_def split: option.splits js.splits)
  show ?thesis
    unfolding s2 using s1 src mdl by simp
qed

theorem success_appends_assistant_message_witness:
  "ok (ok_response plain_body)
   \<and> messages (handleSubmit_settle PostsPage default_env 1 Groq (FetchResolves (ok_response plain_body))
        (fst (handleSubmit PostsPage default_env 0 asking_state)))
       = [userMessage (ascii ''Data inflasi Sumut'') 0,
          last (messages (handleSubmit_settle PostsPage default_env 1 Groq
             (FetchResolves (ok_response plain_body))
             (fst (handleSubmit PostsPage default_env 0 asking_state))))]
   \<and> content (last (messages (handleSubmit_settle PostsPage default_env 1 Groq
         (FetchResolves (ok_response plain_body))
         (fst (handleSubmit PostsPage default_env 0 asking_state))))) = JStr (ascii ''X'')
   \<and> sources (last (messages (handleSubmit_settle PostsPage default_env 1 Groq
         (FetchResolves (ok_response plain_body))
         (fst (handleSubmit PostsPage default_env 0 asking_state))))) = Some (JArr [])
   \<and> model (last (messages (handleSubmit_settle PostsPage default_env 1 Groq
         (FetchResolves (ok_response plain_body))
         (fst (handleSubmit PostsPage default_env 0 asking_state))))) = Some (JStr (ascii ''groq''))
   \<and> loading (handleSubmit_settle PostsPage default_env 1 Groq (FetchResolves (ok_response plain_body))
        (fst (handleSubmit PostsPage default_env 0 asking_state))) = False"
proof -
  have h2: "ok (ok_response plain_body)"
    by (simp add: ok_def ok_response_def)
  have h3: "json (ok_response plain_body)
      = JsonResolves (JObj [(ascii ''answer'', JStr (ascii ''X'')), (ascii ''sources'', JArr [])])"
    by (simp add: ok_response_def plain_body_def)
  have h4: "map_of [(ascii ''answer'', JStr (ascii ''X'')), (ascii ''sources'', JArr [])] (ascii ''answer'')
      = Some (JStr (ascii ''X''))"
    by simp
  show ?thesis
    using h2 success_appends_assistant_message [OF asking_submit h2 h3 h4, of PostsPage 1]
    by (simp add: asking_submit_state)
qed

text \<open>
  C3. After a submit that issued a request, a failed request (\<open>fetch\<close> rejects, or the
  status is outside 200..299) sets error to a message derived from the failure: the
  message of the thrown error (\<open>Terjadi kesalahan\<close> for a thrown value that is no error),
  or \<open>API Error:\<close> followed by the status in decimal digits, which read back give the
  status (and by the status text in the enhanced version). Exactly one assistant message
  is appended; its content is the apology with that text inside it. Loading is false
  again, and the user's question is still in the transcript, just before the error reply.
\<close>

theorem failure_sets_error_and_appends_reply:
  assumes "handleSubmit v env t0 s0 = (s1, Some r)"
    and "outcome = FetchRejects t
           \<and> msg = (case t of ErrorInstance m \<Rightarrow> m | NonError \<Rightarrow> ascii ''Terjadi kesalahan'')
       \<or> outcome = FetchResolves res
           \<and> (status res < 200 \<or> 299 < status res)
           \<and> msg = ascii ''API Error: '' @ nat_to_string (status res)
                    @ (if v = ProductionEnhanced then ascii '' - '' @ statusText res else [])"
  shows "error (handleSubmit_settle v env t1 sel outcome s1) = Some msg
       \<and> messages (handleSubmit_settle v env t1 sel outcome s1)
           = messages s0 @
             [\<lparr>role = RoleUser, content = JStr (question s0), sources = None, timestamp = t0,
               model = None, metadata = None\<rparr>,
              \<lparr>role = RoleAssistant,
               content = JStr (if v = ProductionEnhanced
                               then [0xE2, 0x161, 0xA0, 0xEF, 0xB8] @ ascii '' Maaf, terjadi kesalahan: ''
                                    @ msg @ [0xA, 0xA]
                                    @ ascii ''Silakan coba lagi atau hubungi administrator.''
                               else ascii ''Maaf, terjadi kesalahan: '' @ msg),
               sources = None, timestamp = t1, model = None, metadata = None\<rparr>]
       \<and> sublist msg (if v = ProductionEnhanced
                        then [0xE2, 0x161, 0xA0, 0xEF, 0xB8] @ ascii '' Maaf, terjadi kesalahan: ''
                             @ msg @ [0xA, 0xA]
                             @ ascii ''Silakan coba lagi atau hubungi administrator.''
                        else ascii ''Maaf, terjadi kesalahan: '' @ msg)
       \<and> foldl (\<lambda>a c. 10 * a + (unat c - 48)) 0 (nat_to_string (status res)) = status res
       \<and> loading (handleSubmit_settle v env t1 sel outcome s1) = False
       \<and> question (handleSubmit_settle v env t1 sel outcome s1) = []
       \<and> selectedModel (handleSubmit_settle v env t1 sel outcome s1) = selectedModel s0"
proof -
  let ?text = "if v = ProductionEnhanced
               then [0xE2, 0x161, 0xA0, 0xEF, 0xB8] @ ascii '' Maaf, terjadi kesalahan: ''
                    @ msg @ [0xA, 0xA] @ ascii ''Silakan coba lagi atau hubungi administrator.''
               else ascii ''Maaf, terjadi kesalahan: '' @ msg"
  have s1: "messages s1 = messages s0 @ [userMessage (question s0) t0]"
    "question s1 = []" "selectedModel s1 = selectedModel s0"
    using handleSubmit_SomeD(2) [OF assms(1)] by simp_all
  have tb: "\<exists>err. try_block v env t1 sel outcome = Inl err \<and> errorMessage err = msg"
    using assms(2)
    by (auto simp: try_block_def ok_def api_error_message_def split: thrown.splits)
  then have s2: "handleSubmit_settle v env t1 sel outcome s1
      = s1\<lparr>error := Some msg, messages := messages s1 @ [errorChatMessage v msg t1], loading := False\<rparr>"
    by (auto simp: handleSubmit_settle_def)
  have whole: "error_prefix v @ msg @ error_suffix v = ?text"
    by (simp add: error_prefix_def error_suffix_def)
  have reply: "errorChatMessage v msg t1
      = \<lparr>role = RoleAssistant, content = JStr ?text, sources = None, timestamp = t1,
         model = None, metadata = None\<rparr>"
    unfolding errorChatMessage_def whole by (rule refl)
  have "sublist msg (error_prefix v @ msg @ error_suffix v)"
    unfolding sublist_def by blast
  then have sub: "sublist msg ?text"
    by (simp only: whole)
  have dec: "foldl (\<lambda>a c. 10 * a + (unat c - 48)) 0 (nat_to_string (status res)) = status res"
    by (rule nat_to_string_value)
  have msgs: "messages (handleSubmit_settle v env t1 sel outcome s1)
      = messages s0 @ [userMessage (question s0) t0, errorChatMessage v msg t1]"
    unfolding s2 using s1 by simp
  have rest: "error (handleSubmit_settle v env t1 sel outcome s1) = Some msg"
    "loading (handleSubmit_settle v env t1 sel outcome s1) = False"
    "question (handleSubmit_settle v env t1 sel outcome s1) = []"
    "selectedModel (handleSubmit_settle v env t1 sel outcome s1) = selectedModel s0"
    unfolding s2 using s1 by simp_all
  show ?thesis
    using msgs [unfolded reply userMessage_def] sub dec rest by blast
qed

theorem failure_sets_error_and_appends_reply_witness:
  "error (handleSubmit_settle PostsPage default_env 1 Groq (FetchResolves server_error_response)
        (fst (handleSubmit PostsPage default_env 0 asking_state))) = Some (ascii ''API Error: 500'')
   \<and> messages (handleSubmit_settle PostsPage default_env 1 Groq (FetchResolves server_error_response)
        (fst (handleSubmit PostsPage default_env 0 asking_state)))
       = [\<lparr>role = RoleUser, content = JStr (ascii ''Data inflasi Sumut''), sources = None,
           timestamp = 0, model = None, metadata = None\<rparr>,
          \<lparr>role = RoleAssistant, content = JStr (ascii ''Maaf, terjadi kesalahan: API Error: 500''),
           sources = None, timestamp = 1, model = None, metadata = None\<rparr>]
   \<and> loading (handleSubmit_settle PostsPage default_env 1 Groq (FetchResolves server_error_response)
        (fst (handleSubmit PostsPage default_env 0 asking_state))) = False
   \<and> error (handleSubmit_settle ProductionEnhanced default_env 1 Groq (FetchResolves not_found_response)
        (fst (handleSubmit ProductionEnhanced default_env 0 asking_state)))
       = Some (ascii ''API Error: 404 - Not Found'')"
proof -
  have a: "ascii ''Maaf, terjadi kesalahan: '' @ ascii ''API Error: 500''
      = ascii ''Maaf, terjadi kesalahan: API Error: 500''"
    by (simp add: ascii_def)
  have h500: "FetchResolves server_error_response = FetchRejects NonError
           \<and> ascii ''API Error: 500''
               = (case NonError of ErrorInstance m \<Rightarrow> m | NonError \<Rightarrow> ascii ''Terjadi kesalahan'')
       \<or> FetchResolves server_error_response = FetchResolves server_error_response
           \<and> (status server_error_response < 200 \<or> 299 < status server_error_response)
           \<and> ascii ''API Error: 500''
               = ascii ''API Error: '' @ nat_to_string (status server_error_response)
                 @ (if PostsPage = ProductionEnhanced
                    then ascii '' - '' @ statusText server_error_response else [])"
    by (simp add: server_error_response_def nat_to_string.simps ascii_def)
  have h404: "FetchResolves not_found_response = FetchRejects NonError
           \<and> ascii ''API Error: 404 - Not Found''
               = (case NonError of ErrorInstance m \<Rightarrow> m | NonError \<Rightarrow> ascii ''Terjadi kesalahan'')
       \<or> FetchResolves not_found_response = FetchResolves not_found_response
           \<and> (status not_found_response < 200 \<or> 299 < status not_found_response)
           \<and> ascii ''API Error: 404 - Not Found''
               = ascii ''API Error: '' @ nat_to_string (status not_found_response)
                 @ (if ProductionEnhanced = ProductionEnhanced
                    then ascii '' - '' @ statusText not_found_response else [])"
    by (simp add: not_found_response_def nat_to_string.simps ascii_def)
  note posts = failure_sets_error_and_appends_reply [OF asking_submit h500, of 1 Groq]
  note enhanced = failure_sets_error_and_appends_reply [OF asking_submit h404, of 1 Groq]
  from enhanced have e: "error (handleSubmit_settle ProductionEnhanced default_env 1 Groq
        (FetchResolves not_found_response)
        (fst (handleSubmit ProductionEnhanced default_env 0 asking_state)))
       = Some (ascii ''API Error: 404 - Not Found'')"
    by blast
  show ?thesis
    using a e posts by (simp add: asking_state_def initial_state_def)
qed

text \<open>
  C4, as stated, fails: nothing validates the shape of the body. For a 2xx response with
  body \<open>{}\<close> error stays null and an ordinary assistant message is appended, whose
  content is \<open>undefined\<close>.
\<close>

theorem missing_answer_counterexample:
  "ok (ok_response empty_body)
   \<and> field empty_body (ascii ''answer'') = JUndefined
   \<and> error (handleSubmit_settle PostsPage default_env 1 Groq (FetchResolves (ok_response empty_body))
        (fst (handleSubmit PostsPage default_env 0 asking_state))) = None
   \<and> messages (handleSubmit_settle PostsPage default_env 1 Groq (FetchResolves (ok_response empty_body))
        (fst (handleSubmit PostsPage default_env 0 asking_state)))
       = [userMessage (ascii ''Data inflasi Sumut'') 0,
          \<lparr>role = RoleAssistant, content = JUndefined, sources = Some (JArr []), timestamp = 1,
           model = Some (JStr (ascii ''groq'')), metadata = Some JUndefined\<rparr>]"
  by (simp add: handleSubmit_settle_def try_block_def assistantMessage_def ok_def ok_response_def
      empty_body_def nullish_def optional_field_def js_or_def asking_submit_state)

text \<open>
  C4, amended. A 2xx response whose JSON body is an object without an \<open>answer\<close> field
  is not treated as an error: error stays null, no error message is appended, and exactly
  one ordinary assistant message is appended, with content \<open>undefined\<close> and with sources
  and model built as on success: the \<open>sources\<close> of the response, or the empty list
  when absent or falsy, and \<open>metadata.model\<close> when present and truthy, the model of the
  submission otherwise. Loading returns to false.
\<close>

theorem missing_answer_is_not_an_error:
  assumes "handleSubmit v env t0 s0 = (s1, Some r)"
    and "ok res"
    and "json res = JsonResolves (JObj kvs)"
    and "map_of kvs (ascii ''answer'') = None"
  shows "error (handleSubmit_settle v env t1 sel (FetchResolves res) s1) = None
       \<and> messages (handleSubmit_settle v env t1 sel (FetchResolves res) s1)
           = messages s0 @ [userMessage (question s0) t0,
                            last (messages (handleSubmit_settle v env t1 sel (FetchResolves res) s1))]
       \<and> role (last (messages (handleSubmit_settle v env t1 sel (FetchResolves res) s1))) = RoleAssistant
       \<and> content (last (messages (handleSubmit_settle v env t1 sel (FetchResolves res) s1))) = JUndefined
       \<and> sources (last (messages (handleSubmit_settle v env t1 sel (FetchResolves res) s1)))
           = Some (case map_of kvs (ascii ''sources'') of
                     None \<Rightarrow> JArr []
                   | Some src \<Rightarrow> if truthy src then src else JArr [])
       \<and> model (last (messages (handleSubmit_settle v env t1 sel (FetchResolves res) s1)))
           = Some (case map_of kvs (ascii ''metadata'') of
                     Some (JObj mkvs) \<Rightarrow>
                       (case map_of mkvs (ascii ''model'') of
                          None \<Rightarrow> JStr (model_key sel)
                        | Some m \<Rightarrow> if truthy m then m else JStr (model_key sel))
                   | _ \<Rightarrow> JStr (model_key sel))
       \<and> last (messages (handleSubmit_settle v env t1 sel (FetchResolves res) s1))
           \<noteq> errorChatMessage v msg t1
       \<and> loading (handleSubmit_settle v env t1 sel (FetchResolves res) s1) = False"
proof -
  let ?s2 = "handleSubmit_settle v env t1 sel (FetchResolves res) s1"
  let ?m = "\<lparr>role = RoleAssistant, content = JUndefined,
            sources = Some (js_or (field (JObj kvs) (ascii ''sources'')) (JArr [])),
            timestamp = t1,
            model = Some (js_or (optional_field (field (JObj kvs) (ascii ''metadata'')) (ascii ''model''))
                                (JStr (model_key sel))),
            metadata = (if v = PostsPage then Some (field (JObj kvs) (ascii ''metadata'')) else None)\<rparr>"
  have s1: "messages s1 = messages s0 @ [userMessage (question s0) t0]" "error s1 = None"
    using handleSubmit_SomeD(2) [OF assms(1)] by simp_all
  have tb: "try_block v env t1 sel (FetchResolves res) = Inr ?m"
    using assms(2-4) by (simp add: try_block_def assistantMessage_def nullish_def)
  have s2: "?s2 = s1\<lparr>messages := messages s1 @ [?m], loading := False\<rparr>"
    by (simp add: handleSubmit_settle_def tb)
  have ne: "?m \<noteq> errorChatMessage v msg t1"
    by (simp add: errorChatMessage_def)
  show ?thesis
    unfolding s2 using s1 ne sources_or_empty [of kvs] model_or_selected [of kvs "JStr (model_key sel)"]
    by simp
qed

theorem missing_answer_is_not_an_error_witness:
  "ok (ok_response answerless_body)
   \<and> error (handleSubmit_settle PostsPage default_env 1 Groq (FetchResolves (ok_response answerless_body))
        (fst (handleSubmit PostsPage default_env 0 asking_state))) = None
   \<and> content (last (messages (handleSubmit_settle PostsPage default_env 1 Groq
        (FetchResolves (ok_response answerless_body))
        (fst (handleSubmit PostsPage default_env 0 asking_state))))) = JUndefined
   \<and> sources (last (messages (handleSubmit_settle PostsPage default_env 1 Groq
        (FetchResolves (ok_response answerless_body))
        (fst (handleSubmit PostsPage default_env 0 asking_state)))))
       = Some (JArr [JStr (ascii ''doc'')])
   \<and> model (last (messages (handleSubmit_settle PostsPage default_env 1 Groq
        (FetchResolves (ok_response answerless_body))
        (fst (handleSubmit PostsPage default_env 0 asking_state)))))
       = Some (JStr (ascii ''gemini''))
   \<and> loading (handleSubmit_settle PostsPage default_env 1 Groq (FetchResolves (ok_response answerless_body))
        (fst (handleSubmit PostsPage default_env 0 asking_state))) = False"
proof -
  have h2: "ok (ok_response answerless_body)"
    by (simp add: ok_def ok_response_def)
  have h3: "json (ok_response answerless_body)
      = JsonResolves (JObj [(ascii ''sources'', JArr [JStr (ascii ''doc'')]),
                            (ascii ''metadata'', JObj [(ascii ''model'', JStr (ascii ''gemini''))])])"
    by (simp add: ok_response_def answerless_body_def)
  have h4: "map_of [(ascii ''sources'', JArr [JStr (ascii ''doc'')]),
                    (ascii ''metadata'', JObj [(ascii ''model'', JStr (ascii ''gemini''))])]
              (ascii ''answer'') = None"
    by simp
  show ?thesis
    using h2 missing_answer_is_not_an_error [OF asking_submit h2 h3 h4, of PostsPage 1 Groq "[]"]
    by simp
qed

text \<open>
  C5. Whenever the pending input is non-empty after trimming, the synchronous part of
  submit appends exactly one user message that carries the raw, untrimmed text, clears
  the pending input, sets loading to true and error to null, and issues a request, all
  before any response arrives. This holds whatever the loading flag is, so in particular
  when no request is in flight.
\<close>

theorem submit_appends_user_message:
  assumes "trim (question s) \<noteq> []"
  shows "messages (fst (handleSubmit v env now s)) = messages s @ [userMessage (question s) now]
       \<and> role (userMessage (question s) now) = RoleUser
       \<and> content (userMessage (question s) now) = JStr (question s)
       \<and> question (fst (handleSubmit v env now s)) = []
       \<and> loading (fst (handleSubmit v env now s)) = True
       \<and> error (fst (handleSubmit v env now s)) = None
       \<and> selectedModel (fst (handleSubmit v env now s)) = selectedModel s
       \<and> snd (handleSubmit v env now s) \<noteq> None"
  using assms by (simp add: handleSubmit_def userMessage_def)

theorem submit_appends_user_message_witness:
  "trim (question asking_state) \<noteq> []
   \<and> messages (fst (handleSubmit PostsPage default_env 7 asking_state))
       = [userMessage (ascii ''Data inflasi Sumut'') 7]
   \<and> question (fst (handleSubmit PostsPage default_env 7 asking_state)) = []
   \<and> loading (fst (handleSubmit PostsPage default_env 7 asking_state))"
proof -
  have h: "trim (question asking_state) \<noteq> []"
    by (simp add: asking_state_def)
  show ?thesis
    using h submit_appends_user_message [OF h, of PostsPage default_env 7]
    by (simp add: asking_state_def initial_state_def)
qed

text \<open>
  C6, as stated, fails on the enhanced production version, whose request body has a
  fourth field, \<open>top_k: 5\<close>.
\<close>

theorem enhanced_body_has_top_k_counterexample:
  "question asking_state = ascii ''Data inflasi Sumut''
   \<and> selectedModel asking_state = Groq
   \<and> map_option body (snd (handleSubmit ProductionEnhanced default_env 0 asking_state))
       = Some (JObj [(ascii ''question'', JStr (ascii ''Data inflasi Sumut'')),
                     (ascii ''use_rag'', JBool True),
                     (ascii ''model'', JStr (ascii ''groq'')),
                     (ascii ''top_k'', JNum 5)])
   \<and> map_option body (snd (handleSubmit ProductionEnhanced default_env 0 asking_state))
       \<noteq> Some (JObj [(ascii ''question'', JStr (ascii ''Data inflasi Sumut'')),
                      (ascii ''use_rag'', JBool True),
                      (ascii ''model'', JStr (ascii ''groq''))])"
  by (simp add: handleSubmit_def asking_state_def initial_state_def chat_request_def request_body_def)

text \<open>
  C6, amended. Submitting the question \<open>Data inflasi Sumut\<close> with the model \<open>groq\<close>
  selected issues one POST to \<open>{API_URL}/api/chat\<close> with the header
  \<open>Content-Type: application/json\<close>. In the Posts page and in the production version with
  fixed sources the body is exactly \<open>{question, use_rag: true, model: "groq"}\<close>; in the
  enhanced production version it is these three fields followed by \<open>top_k: 5\<close>.
\<close>

theorem request_for_inflation_question:
  assumes "question s = ascii ''Data inflasi Sumut''"
    and "selectedModel s = Groq"
  shows "snd (handleSubmit v env now s)
       = Some \<lparr>url = API_URL env @ ascii ''/api/chat'',
               http_method = ascii ''POST'',
               headers = [(ascii ''Content-Type'', ascii ''application/json'')],
               body = JObj (if v = ProductionEnhanced
                            then [(ascii ''question'', JStr (ascii ''Data inflasi Sumut'')),
                                  (ascii ''use_rag'', JBool True),
                                  (ascii ''model'', JStr (ascii ''groq'')),
                                  (ascii ''top_k'', JNum 5)]
                            else [(ascii ''question'', JStr (ascii ''Data inflasi Sumut'')),
                                  (ascii ''use_rag'', JBool True),
                                  (ascii ''model'', JStr (ascii ''groq''))])\<rparr>"
  using assms by (simp add: handleSubmit_def chat_request_def request_body_def)

theorem request_for_inflation_question_witness:
  "question asking_state = ascii ''Data inflasi Sumut''
   \<and> selectedModel asking_state = Groq
   \<and> snd (handleSubmit PostsPage default_env 0 asking_state)
       = Some \<lparr>url = ascii ''https://jernihh-magangchatbot-ai.hf.space/api/chat'',
               http_method = ascii ''POST'',
               headers = [(ascii ''Content-Type'', ascii ''application/json'')],
               body = JObj [(ascii ''question'', JStr (ascii ''Data inflasi Sumut'')),
                            (ascii ''use_rag'', JBool True),
                            (ascii ''model'', JStr (ascii ''groq''))]\<rparr>"
proof -
  have q: "question asking_state = ascii ''Data inflasi Sumut''"
    and m: "selectedModel asking_state = Groq"
    by (simp_all add: asking_state_def initial_state_def)
  have u: "API_URL default_env @ ascii ''/api/chat''
      = ascii ''https://jernihh-magangchatbot-ai.hf.space/api/chat''"
    by (simp add: default_env_def ascii_def)
  show ?thesis
    using q m u request_for_inflation_question [OF q m, of PostsPage default_env 0]
    by simp
qed

text \<open>
  C7, as stated, fails on the Posts page, where a quick-question button only fills the
  input: nothing is submitted, and the state differs from the one after a manual submit
  of the same text.
\<close>

theorem quick_question_posts_page_counterexample:
  "poverty_question \<in> set (quickQuestions PostsPage)
   \<and> quickQuestion_onClick poverty_question initial_state
       = \<lparr>question = poverty_question, messages = [], loading = False, error = None,
          selectedModel = Groq\<rparr>
   \<and> handleSubmit PostsPage default_env 0 (setQuestion poverty_question initial_state)
       = (\<lparr>question = [], messages = [userMessage poverty_question 0], loading = True,
           error = None, selectedModel = Groq\<rparr>,
          Some (chat_request PostsPage default_env poverty_question Groq))
   \<and> quickQuestion_onClick poverty_question initial_state
       \<noteq> fst (handleSubmit PostsPage default_env 0 (setQuestion poverty_question initial_state))"
proof -
  have "poverty_question \<in> set (quickQuestions PostsPage)"
    by (simp add: quickQuestions_def poverty_question_def)
  then show ?thesis
    by (simp add: quickQuestion_onClick_def setQuestion_def handleSubmit_def initial_state_def)
qed

text \<open>
  C7, amended. In the enhanced production version a quick question (clicked while no
  request is in flight) sets the pending input to the preset text and sets a timer that
  submits the form; when the timer fires with no other event in between, the page is in
  the same state as after typing that text and submitting by hand: the user message is
  appended and loading is true. In the Posts page the button sets the pending input and
  does not submit.
\<close>

theorem quick_question_enhanced_equals_manual_submit:
  assumes "i < length (quickQuestions ProductionEnhanced)"
    and "\<not> loading (session p)"
  shows "step env (TimerFires now) (step env (QuickQuestion i) p)
           = step env (SubmitForm now) (step env (InputChange (quickQuestions ProductionEnhanced ! i)) p)
       \<and> question (session (step env (QuickQuestion i) p)) = quickQuestions ProductionEnhanced ! i
       \<and> session (step env (TimerFires now) (step env (QuickQuestion i) p))
           = fst (handleSubmit ProductionEnhanced env now
                   (setQuestion (quickQuestions ProductionEnhanced ! i) (session p)))
       \<and> messages (session (step env (TimerFires now) (step env (QuickQuestion i) p)))
           = messages (session p) @ [userMessage (quickQuestions ProductionEnhanced ! i) now]
       \<and> loading (session (step env (TimerFires now) (step env (QuickQuestion i) p)))
       \<and> quickQuestion_onClick q s = setQuestion q s"
proof -
  let ?q = "quickQuestions ProductionEnhanced ! i"
  have "?q \<in> set (quickQuestions ProductionEnhanced)"
    using assms(1) by (rule nth_mem)
  then have nb: "trim ?q \<noteq> []" by (rule preset_not_blank)
  then have ne: "?q \<noteq> []" by auto
  have quick: "step env (QuickQuestion i) p
      = p\<lparr>session := setQuestion ?q (session p), timers := Suc (timers p)\<rparr>"
    using assms by (simp add: handleQuickQuestion_def)
  have manual: "step env (InputChange ?q) p = p\<lparr>session := setQuestion ?q (session p)\<rparr>"
    using assms(2) by simp
  have sub: "requestSubmit env now (p\<lparr>session := setQuestion ?q (session p)\<rparr>)
      = p\<lparr>session := fst (handleSubmit ProductionEnhanced env now (setQuestion ?q (session p))),
          inflight := inflight p @ [selectedModel (session p)]\<rparr>"
    using nb ne by (simp add: requestSubmit_def onSubmit_def handleSubmit_def setQuestion_def)
  have lhs: "step env (TimerFires now) (step env (QuickQuestion i) p)
      = requestSubmit env now (p\<lparr>session := setQuestion ?q (session p)\<rparr>)"
    unfolding quick by simp
  have rhs: "step env (SubmitForm now) (step env (InputChange ?q) p)
      = requestSubmit env now (p\<lparr>session := setQuestion ?q (session p)\<rparr>)"
    unfolding manual using assms(2) by (simp add: setQuestion_def)
  have same: "step env (TimerFires now) (step env (QuickQuestion i) p)
      = step env (SubmitForm now) (step env (InputChange ?q) p)"
    by (simp only: lhs rhs)
  have filled: "question (session (step env (QuickQuestion i) p)) = ?q"
    unfolding quick by (simp add: setQuestion_def)
  have sess: "session (step env (TimerFires now) (step env (QuickQuestion i) p))
      = fst (handleSubmit ProductionEnhanced env now (setQuestion ?q (session p)))"
    unfolding lhs sub by simp
  have after: "fst (handleSubmit ProductionEnhanced env now (setQuestion ?q (session p)))
      = (session p)\<lparr>messages := messages (session p) @ [userMessage ?q now],
                      question := [], loading := True, error := None\<rparr>"
    using nb by (simp add: handleSubmit_def setQuestion_def)
  show ?thesis
    unfolding sess after using same filled by (simp add: quickQuestion_onClick_def)
qed

theorem quick_question_enhanced_equals_manual_submit_witness:
  "0 < length (quickQuestions ProductionEnhanced)
   \<and> \<not> loading (session initial_page)
   \<and> step default_env (TimerFires 5) (step default_env (QuickQuestion 0) initial_page)
       = step default_env (SubmitForm 5)
           (step default_env (InputChange (quickQuestions ProductionEnhanced ! 0)) initial_page)
   \<and> messages (session (step default_env (TimerFires 5) (step default_env (QuickQuestion 0) initial_page)))
       = [userMessage (quickQuestions ProductionEnhanced ! 0) 5]
   \<and> loading (session (step default_env (TimerFires 5) (step default_env (QuickQuestion 0) initial_page)))"
proof -
  have i: "0 < length (quickQuestions ProductionEnhanced)"
    by (simp add: quickQuestions_def)
  have l: "\<not> loading (session initial_page)"
    by (simp add: initial_page_def initial_state_def)
  have m: "messages (session initial_page) = []"
    by (simp add: initial_page_def initial_state_def)
  note run = quick_question_enhanced_equals_manual_submit [OF i l, of default_env 5 "[]" initial_state]
  from run have same:
    "step default_env (TimerFires 5) (step default_env (QuickQuestion 0) initial_page)
       = step default_env (SubmitForm 5)
           (step default_env (InputChange (quickQuestions ProductionEnhanced ! 0)) initial_page)"
    by blast
  from run have
    "messages (session (step default_env (TimerFires 5) (step default_env (QuickQuestion 0) initial_page)))
       = messages (session initial_page) @ [userMessage (quickQuestions ProductionEnhanced ! 0) 5]"
    by blast
  then have msgs:
    "messages (session (step default_env (TimerFires 5) (step default_env (QuickQuestion 0) initial_page)))
       = [userMessage (quickQuestions ProductionEnhanced ! 0) 5]"
    by (simp only: m append_Nil)
  from run have busy:
    "loading (session (step default_env (TimerFires 5) (step default_env (QuickQuestion 0) initial_page)))"
    by blast
  show ?thesis
    using i l same msgs busy by blast
qed

text \<open>
  C8. \<open>dismissError\<close> sets error to null and leaves the transcript, the pending input, the
  loading flag and the selected model as they are; when error is already null the
  whole state is unchanged.
\<close>

theorem dismissError_frame:
  "error (dismissError s) = None
   \<and> messages (dismissError s) = messages s
   \<and> question (dismissError s) = question s
   \<and> loading (dismissError s) = loading s
   \<and> selectedModel (dismissError s) = selectedModel s
   \<and> (error s = None \<longrightarrow> dismissError s = s)"
  by (simp add: dismissError_def setError_def)

theorem dismissError_frame_witness:
  "error initial_state = None \<and> dismissError initial_state = initial_state"
proof -
  have h: "error initial_state = None" by (simp add: initial_state_def)
  show ?thesis using h dismissError_frame [of initial_state] by simp
qed

text \<open>
  C9. The transcript is append-only: the synchronous part of submit and its resolution
  (success or failure) extend the message list at its end, and selecting a model, filling
  the input, a quick question and dismissing the error leave it unchanged. Hence after any
  event, and after any sequence of events of the enhanced production page, the earlier
  transcript is a prefix of the later one.
\<close>

theorem transcript_append_only:
  "prefix (messages s) (messages (fst (handleSubmit v env now s)))
   \<and> prefix (messages s) (messages (handleSubmit_settle v env now sel outcome s))
   \<and> messages (setSelectedModel m s) = messages s
   \<and> messages (setQuestion q s) = messages s
   \<and> messages (quickQuestion_onClick q s) = messages s
   \<and> messages (session (handleQuickQuestion q p)) = messages (session p)
   \<and> messages (dismissError s) = messages s
   \<and> prefix (messages (session p)) (messages (session (step env e p)))
   \<and> prefix (messages (session p)) (messages (session (run env evs p)))"
  by (simp add: submit_prefix settle_prefix step_prefix run_prefix setSelectedModel_def
      setQuestion_def quickQuestion_onClick_def handleQuickQuestion_def dismissError_def setError_def)

text \<open>
  C10. The assistant message appended on a failed request has neither a source list
  nor a model identifier, so neither the sources section nor the model badge is shown
  for it; a message built from a response has both fields, and its badge is shown.
\<close>

theorem error_reply_has_no_sources_or_model:
  "sources (errorChatMessage v msg now) = None
   \<and> model (errorChatMessage v msg now) = None
   \<and> \<not> model_badge_shown (errorChatMessage v msg now)
   \<and> sources_section_shown (errorChatMessage v msg now) = Some False
   \<and> (try_block v env now sel outcome = Inl err \<longrightarrow>
        handleSubmit_settle v env now sel outcome s
          = s\<lparr>error := Some (errorMessage err),
              messages := messages s @ [errorChatMessage v (errorMessage err) now],
              loading := False\<rparr>)
   \<and> (try_block v env now sel outcome' = Inr m \<longrightarrow>
        sources m \<noteq> None \<and> model m \<noteq> None \<and> model_badge_shown m)"
proof -
  have "sources m \<noteq> None \<and> model m \<noteq> None \<and> model_badge_shown m"
    if "try_block v env now sel outcome' = Inr m"
  proof -
    from that obtain data where "assistantMessage v env now sel data = Inr m"
      by (auto simp: try_block_def split: fetch_outcome.splits json_outcome.splits if_splits)
    then show ?thesis
      by (auto simp: assistantMessage_def model_badge_shown_def js_or_def split: if_splits)
  qed
  then show ?thesis
    by (simp add: errorChatMessage_def model_badge_shown_def sources_section_shown_def
        handleSubmit_settle_def)
qed

theorem error_reply_has_no_sources_or_model_witness:
  "try_block PostsPage default_env 1 Groq (FetchRejects NonError) = Inl NonError
   \<and> try_block PostsPage default_env 1 Groq (FetchResolves (ok_response plain_body))
       = Inr \<lparr>role = RoleAssistant, content = JStr (ascii ''X''), sources = Some (JArr []),
              timestamp = 1, model = Some (JStr (ascii ''groq'')), metadata = Some JUndefined\<rparr>
   \<and> messages (handleSubmit_settle PostsPage default_env 1 Groq (FetchRejects NonError) initial_state)
       = [errorChatMessage PostsPage (ascii ''Terjadi kesalahan'') 1]
   \<and> sources (errorChatMessage PostsPage (ascii ''Terjadi kesalahan'') 1) = None
   \<and> model (errorChatMessage PostsPage (ascii ''Terjadi kesalahan'') 1) = None
   \<and> model_badge_shown \<lparr>role = RoleAssistant, content = JStr (ascii ''X''), sources = Some (JArr []),
              timestamp = 1, model = Some (JStr (ascii ''groq'')), metadata = Some JUndefined\<rparr>"
proof -
  have a: "try_block PostsPage default_env 1 Groq (FetchRejects NonError) = Inl NonError"
    by (simp add: try_block_def)
  have b: "try_block PostsPage default_env 1 Groq (FetchResolves (ok_response plain_body))
       = Inr \<lparr>role = RoleAssistant, content = JStr (ascii ''X''), sources = Some (JArr []),
              timestamp = 1, model = Some (JStr (ascii ''groq'')), metadata = Some JUndefined\<rparr>"
    by (simp add: try_block_def assistantMessage_def ok_def ok_response_def plain_body_def
        nullish_def optional_field_def js_or_def)
  show ?thesis
    using a b
      error_reply_has_no_sources_or_model [of PostsPage "ascii ''Terjadi kesalahan''" 1 default_env
        Groq "FetchRejects NonError" NonError initial_state "FetchResolves (ok_response plain_body)"
        "\<lparr>role = RoleAssistant, content = JStr (ascii ''X''), sources = Some (JArr []),
          timestamp = 1, model = Some (JStr (ascii ''groq'')), metadata = Some JUndefined\<rparr>"]
    by (simp add: initial_state_def)
qed

end
